theory Spec2Isabelle
  imports Main
begin

section \<open>The control residual model of \<^verbatim>\<open>crocoddyl/core/residuals/control.hxx\<close>\<close>

text \<open>
  The class template \<^verbatim>\<open>ResidualModelControlTpl<Scalar>\<close> is embedded with the scalar
  type as a type variable \<open>'a\<close>: each operation asks of it only the constants and
  operators the source applies to a \<^verbatim>\<open>Scalar\<close> (\<open>0\<close>, \<open>1\<close>, \<open>-\<close>). Dimensions are
  \<^verbatim>\<open>std::size_t\<close> values that the source only compares for equality, so they are
  natural numbers.
\<close>

subsection \<open>Vectors and matrices\<close>

text \<open>
  A dynamic vector (\<^verbatim>\<open>VectorXs\<close>) is the list of its coefficients, a dynamic matrix
  (\<^verbatim>\<open>MatrixXs\<close>) the list of its rows.
\<close>

type_synonym 'a VectorXs = "'a list"
type_synonym 'a MatrixXs = "'a list list"

definition is_matrix :: "nat \<Rightarrow> nat \<Rightarrow> 'a MatrixXs \<Rightarrow> bool" where
  \<comment> \<open>a matrix with the given numbers of rows and columns\<close>
  "is_matrix rows cols M \<longleftrightarrow> length M = rows \<and> list_all (\<lambda>row. length row = cols) M"

definition VectorXs_Zero :: "nat \<Rightarrow> 'a::zero VectorXs" where
  \<comment> \<open>\<^verbatim>\<open>VectorXs::Zero(n)\<close>\<close>
  "VectorXs_Zero n = replicate n 0"

definition setZero :: "'a VectorXs \<Rightarrow> 'a::zero VectorXs" where
  \<comment> \<open>\<^verbatim>\<open>v.setZero()\<close>: every coefficient becomes zero, the size stays\<close>
  "setZero v = replicate (length v) 0"

definition vec_minus :: "'a::minus VectorXs \<Rightarrow> 'a VectorXs \<Rightarrow> 'a VectorXs option" where
  \<comment> \<open>\<^verbatim>\<open>a - b\<close> on vectors: coefficientwise; the operands must have the same size
      (the library asserts it), otherwise there is no result\<close>
  "vec_minus a b = (if length a = length b then Some (map2 (-) a b) else None)"

definition MatrixXs_Zero :: "nat \<Rightarrow> nat \<Rightarrow> 'a::zero MatrixXs" where
  \<comment> \<open>\<^verbatim>\<open>MatrixXs::Zero(rows, cols)\<close>\<close>
  "MatrixXs_Zero rows cols = replicate rows (replicate cols 0)"

definition MatrixXs_Identity :: "nat \<Rightarrow> nat \<Rightarrow> 'a::{zero,one} MatrixXs" where
  \<comment> \<open>\<^verbatim>\<open>MatrixXs::Identity(rows, cols)\<close>\<close>
  "MatrixXs_Identity rows cols =
     map (\<lambda>i. map (\<lambda>j. if i = j then 1 else 0) [0..<cols]) [0..<rows]"

definition diagonal_fill :: "'a \<Rightarrow> 'a MatrixXs \<Rightarrow> 'a MatrixXs" where
  \<comment> \<open>\<^verbatim>\<open>M.diagonal().fill(v)\<close>: the coefficients \<open>(i, i)\<close> that exist become \<open>v\<close>;
      a row shorter than its index has no diagonal coefficient and stays as it is\<close>
  "diagonal_fill v M =
     map (\<lambda>i. if i < length (M ! i) then (M ! i)[i := v] else M ! i) [0..<length M]"

subsection \<open>Exceptions\<close>

datatype error =
    InvalidArgument  \<comment> \<open>\<^verbatim>\<open>throw_pretty("Invalid argument: " ...)\<close>\<close>
  | AssertFailed     \<comment> \<open>\<^verbatim>\<open>assert_pretty\<close> in a build without \<^verbatim>\<open>NDEBUG\<close>\<close>
  | SizeMismatch     \<comment> \<open>a coefficientwise operation on vectors of different sizes\<close>

subsection \<open>The model and its data\<close>

record StateAbstract =
  nv :: nat  \<comment> \<open>\<^verbatim>\<open>state->get_nv()\<close>, all the model reads of the state\<close>

text \<open>
  The members of the base class \<^verbatim>\<open>ResidualModelAbstractTpl\<close> that the constructors
  of the control residual initialise, and the derived class with its reference vector.
\<close>

record ResidualModelAbstract =
  state :: StateAbstract
  nr :: nat
  nu :: nat
  q_dependent :: bool
  v_dependent :: bool
  u_dependent :: bool

record 'a ResidualModelControl = ResidualModelAbstract +
  uref :: "'a VectorXs"

text \<open>
  The residual data: the fields \<^verbatim>\<open>r\<close> and \<^verbatim>\<open>Ru\<close> are the two this file touches;
  whatever else the data object holds is the extension part of the record.
\<close>

record 'a ResidualDataAbstract =
  r :: "'a VectorXs"
  Ru :: "'a MatrixXs"

definition Base :: "StateAbstract \<Rightarrow> nat \<Rightarrow> nat \<Rightarrow> bool \<Rightarrow> bool \<Rightarrow> bool \<Rightarrow> ResidualModelAbstract" where
  \<comment> \<open>Modelled from the spec: the base-class constructor
      \<^verbatim>\<open>Base(state, nr, nu, q_dependent, v_dependent, u_dependent)\<close>, declared outside
      this source file; it establishes the residual and control dimensions and the
      dependency flags from its arguments.\<close>
  "Base st n_r n_u q v u =
     \<lparr>state = st, nr = n_r, nu = n_u, q_dependent = q, v_dependent = v, u_dependent = u\<rparr>"

definition ResidualDataAbstract_ctor ::
  "'a ResidualModelControl \<Rightarrow> 'c \<Rightarrow> ('a::zero) ResidualDataAbstract" where
  \<comment> \<open>Modelled from the spec: the constructor of the base data class
      \<^verbatim>\<open>ResidualDataAbstract(model, collector)\<close>, declared outside this source file; the
      residual has length \<open>nr\<close>, the Jacobian is \<open>nr \<times> nu\<close>, both start at zero.\<close>
  "ResidualDataAbstract_ctor model collector =
     \<lparr>r = VectorXs_Zero (nr model), Ru = MatrixXs_Zero (nr model) (nu model)\<rparr>"

subsection \<open>Constructors\<close>

definition ResidualModelControl_uref ::
  "StateAbstract \<Rightarrow> 'a VectorXs \<Rightarrow> error + 'a ResidualModelControl" where
  \<comment> \<open>\<^verbatim>\<open>ResidualModelControlTpl(state, uref)\<close>\<close>
  "ResidualModelControl_uref st u_ref =
     (let this = ResidualModelAbstract.extend
                   (Base st (length u_ref) (length u_ref) False False True)
                   (ResidualModelControl.fields u_ref)
      in if nu this = 0 then Inl InvalidArgument else Inr this)"

definition ResidualModelControl_nu ::
  "StateAbstract \<Rightarrow> nat \<Rightarrow> error + ('a::zero) ResidualModelControl" where
  \<comment> \<open>\<^verbatim>\<open>ResidualModelControlTpl(state, nu)\<close>\<close>
  "ResidualModelControl_nu st n =
     (let this = ResidualModelAbstract.extend
                   (Base st n n False False True)
                   (ResidualModelControl.fields (VectorXs_Zero n))
      in if nu this = 0 then Inl InvalidArgument else Inr this)"

definition ResidualModelControl_state ::
  "StateAbstract \<Rightarrow> error + ('a::zero) ResidualModelControl" where
  \<comment> \<open>\<^verbatim>\<open>ResidualModelControlTpl(state)\<close>: the constructor body is empty\<close>
  "ResidualModelControl_state st =
     Inr (ResidualModelAbstract.extend
            (Base st (nv st) (nv st) False False True)
            (ResidualModelControl.fields (VectorXs_Zero (nv st))))"

subsection \<open>Operations\<close>

text \<open>
  An operation that may throw returns the exception, if any, together with the model and
  the data object as the call leaves them: both outlive the call, also when it throws.
\<close>

definition calc ::
  "('a::minus) ResidualModelControl \<Rightarrow> ('a, 'z) ResidualDataAbstract_scheme \<Rightarrow>
     'a VectorXs \<Rightarrow> 'a VectorXs \<Rightarrow>
     error option \<times> 'a ResidualModelControl \<times> ('a, 'z) ResidualDataAbstract_scheme" where
  \<comment> \<open>\<^verbatim>\<open>calc(data, x, u)\<close>\<close>
  "calc this data x u =
     (if length u \<noteq> nu this then (Some InvalidArgument, this, data)
      else case vec_minus u (uref this) of
             None \<Rightarrow> (Some SizeMismatch, this, data)
           | Some d \<Rightarrow> (None, this, data\<lparr>r := d\<rparr>))"

definition calc_x ::
  "'a ResidualModelControl \<Rightarrow> ('a::zero, 'z) ResidualDataAbstract_scheme \<Rightarrow> 'a VectorXs \<Rightarrow>
     error option \<times> 'a ResidualModelControl \<times> ('a, 'z) ResidualDataAbstract_scheme" where
  \<comment> \<open>\<^verbatim>\<open>calc(data, x)\<close>, the overload without a control\<close>
  "calc_x this data x = (None, this, data\<lparr>r := setZero (r data)\<rparr>)"

definition calcDiff ::
  "bool \<Rightarrow> ('a MatrixXs \<Rightarrow> 'a MatrixXs \<Rightarrow> bool) \<Rightarrow>
     ('a::{zero,one}) ResidualModelControl \<Rightarrow> ('a, 'z) ResidualDataAbstract_scheme \<Rightarrow>
     'a VectorXs \<Rightarrow> 'a VectorXs \<Rightarrow>
     error option \<times> 'a ResidualModelControl \<times> ('a, 'z) ResidualDataAbstract_scheme" where
  \<comment> \<open>\<^verbatim>\<open>calcDiff(data, x, u)\<close>. The first argument says whether \<^verbatim>\<open>NDEBUG\<close> is defined,
      the second is the library's \<^verbatim>\<open>isApprox\<close> comparison of two matrices.\<close>
  "calcDiff ndebug isApprox this data x u =
     (if \<not> ndebug \<and> \<not> isApprox (Ru data) (MatrixXs_Identity (nu this) (nu this))
      then (Some AssertFailed, this, data)
      else (None, this, data))"

definition createData ::
  "('a ResidualModelControl \<Rightarrow> 'c \<Rightarrow> ('a::one, 'z) ResidualDataAbstract_scheme) \<Rightarrow>
     'a ResidualModelControl \<Rightarrow> 'c \<Rightarrow> ('a, 'z) ResidualDataAbstract_scheme" where
  \<comment> \<open>\<^verbatim>\<open>createData(_data)\<close>. The first argument is the constructor of the base data
      class, which \<^verbatim>\<open>allocate_shared\<close> runs on \<^verbatim>\<open>(this, _data)\<close>.\<close>
  "createData base_ctor this collector =
     (let data = base_ctor this collector
      in data\<lparr>Ru := diagonal_fill 1 (Ru data)\<rparr>)"

definition print :: "'a ResidualModelControl \<Rightarrow> string \<Rightarrow> string" where
  \<comment> \<open>\<^verbatim>\<open>print(os)\<close>, the stream as the text written to it so far\<close>
  "print this os = os @ ''ResidualModelControl''"

definition get_reference :: "'a ResidualModelControl \<Rightarrow> 'a VectorXs" where
  \<comment> \<open>\<^verbatim>\<open>get_reference()\<close>\<close>
  "get_reference this = uref this"

definition set_reference ::
  "'a ResidualModelControl \<Rightarrow> 'a VectorXs \<Rightarrow> error option \<times> 'a ResidualModelControl" where
  \<comment> \<open>\<^verbatim>\<open>set_reference(reference)\<close>\<close>
  "set_reference this reference =
     (if length reference \<noteq> nu this then (Some InvalidArgument, this)
      else (None, this\<lparr>uref := reference\<rparr>))"

definition valid_model :: "'a ResidualModelControl \<Rightarrow> bool" where
  \<comment> \<open>what every constructor establishes and \<open>set_reference\<close> keeps: the residual and
      control dimensions agree and the reference has that many coefficients\<close>
  "valid_model this \<longleftrightarrow> nr this = nu this \<and> length (uref this) = nu this"

subsection \<open>Concrete objects for the examples\<close>

abbreviation model_123 :: "int ResidualModelControl" where
  "model_123 \<equiv> \<lparr>state = \<lparr>nv = 3\<rparr>, nr = 3, nu = 3, q_dependent = False,
                 v_dependent = False, u_dependent = True, uref = [1, 2, 3]\<rparr>"

abbreviation data_stale :: "int ResidualDataAbstract" where
  "data_stale \<equiv> \<lparr>r = [7, 8, 9], Ru = [[1, 0, 0], [0, 1, 0], [0, 0, 1]]\<rparr>"

abbreviation ctor_garbage :: "int ResidualModelControl \<Rightarrow> unit \<Rightarrow> int ResidualDataAbstract" where
  "ctor_garbage \<equiv> \<lambda>model collector. \<lparr>r = [4, 4, 4], Ru = [[5, 7, 0], [8, 9, 0], [0, 0, 2]]\<rparr>"

section \<open>Basic facts\<close>

lemmas ctor_defs =
  Base_def ResidualModelAbstract.defs ResidualModelControl.defs VectorXs_Zero_def

lemma ResidualModelControl_uref_eq:
  "ResidualModelControl_uref st u_ref =
     (if u_ref = [] then Inl InvalidArgument
      else Inr \<lparr>state = st, nr = length u_ref, nu = length u_ref, q_dependent = False,
                v_dependent = False, u_dependent = True, uref = u_ref\<rparr>)"
  by (simp add: ResidualModelControl_uref_def ctor_defs)

lemma ResidualModelControl_nu_eq:
  "ResidualModelControl_nu st n =
     (if n = 0 then Inl InvalidArgument
      else Inr \<lparr>state = st, nr = n, nu = n, q_dependent = False,
                v_dependent = False, u_dependent = True, uref = replicate n 0\<rparr>)"
  by (simp add: ResidualModelControl_nu_def ctor_defs)

lemma ResidualModelControl_state_eq:
  "ResidualModelControl_state st =
     Inr \<lparr>state = st, nr = nv st, nu = nv st, q_dependent = False,
          v_dependent = False, u_dependent = True, uref = replicate (nv st) 0\<rparr>"
  by (simp add: ResidualModelControl_state_def ctor_defs)

lemma valid_model_uref:
  "ResidualModelControl_uref st u_ref = Inr this \<Longrightarrow> valid_model this \<and> 0 < nu this"
  by (auto simp: ResidualModelControl_uref_eq valid_model_def split: if_splits)

lemma valid_model_nu:
  "ResidualModelControl_nu st n = Inr this \<Longrightarrow> valid_model this \<and> 0 < nu this"
  by (auto simp: ResidualModelControl_nu_eq valid_model_def split: if_splits)

lemma valid_model_state:
  "ResidualModelControl_state st = Inr this \<Longrightarrow> valid_model this"
  by (auto simp: ResidualModelControl_state_eq valid_model_def)

lemma valid_model_set_reference:
  "valid_model this \<Longrightarrow> valid_model (snd (set_reference this reference))"
  by (simp add: set_reference_def valid_model_def)

lemma vec_minus_Some:
  "length a = length b \<Longrightarrow> vec_minus a b = Some (map2 (-) a b)"
  by (simp add: vec_minus_def)

lemma length_diagonal_fill [simp]: "length (diagonal_fill v M) = length M"
  by (simp add: diagonal_fill_def)

lemma length_nth_diagonal_fill [simp]:
  "i < length M \<Longrightarrow> length (diagonal_fill v M ! i) = length (M ! i)"
  by (simp add: diagonal_fill_def)

lemma nth_nth_diagonal_fill:
  "i < length M \<Longrightarrow> j < length (M ! i) \<Longrightarrow>
     diagonal_fill v M ! i ! j = (if i = j then v else M ! i ! j)"
  by (auto simp: diagonal_fill_def nth_list_update)

lemma is_matrix_alt:
  "is_matrix rows cols M \<longleftrightarrow> length M = rows \<and> (\<forall>i<rows. length (M ! i) = cols)"
  by (auto simp: is_matrix_def list_all_length)

lemma is_matrix_Identity [simp]: "is_matrix n m (MatrixXs_Identity n m)"
  by (simp add: is_matrix_alt MatrixXs_Identity_def)

lemma is_matrix_Zero [simp]: "is_matrix n m (MatrixXs_Zero n m)"
  by (simp add: is_matrix_alt MatrixXs_Zero_def)

lemma matrix_eqI:
  assumes "is_matrix n m A" and "is_matrix n m B"
    and "\<And>i j. i < n \<Longrightarrow> j < m \<Longrightarrow> A ! i ! j = B ! i ! j"
  shows "A = B"
proof (rule nth_equalityI)
  show "length A = length B"
    using assms(1,2) by (simp add: is_matrix_alt)
next
  fix i assume i: "i < length A"
  then have "i < n" using assms(1) by (simp add: is_matrix_alt)
  then have la: "length (A ! i) = m" and lb: "length (B ! i) = m"
    using assms(1,2) by (simp_all add: is_matrix_alt)
  show "A ! i = B ! i"
  proof (rule nth_equalityI)
    show "length (A ! i) = length (B ! i)" by (simp add: la lb)
  next
    fix j assume "j < length (A ! i)"
    then show "A ! i ! j = B ! i ! j"
      using assms(3) \<open>i < n\<close> la by simp
  qed
qed

lemma is_matrix_diagonal_fill:
  "is_matrix n m M \<Longrightarrow> is_matrix n m (diagonal_fill v M)"
  by (simp add: is_matrix_alt)

lemma nth_Identity:
  "i < n \<Longrightarrow> j < m \<Longrightarrow> MatrixXs_Identity n m ! i ! j = (if i = j then 1 else 0)"
  by (simp add: MatrixXs_Identity_def)

lemma nth_Zero: "i < n \<Longrightarrow> j < m \<Longrightarrow> MatrixXs_Zero n m ! i ! j = 0"
  by (simp add: MatrixXs_Zero_def)

lemma diagonal_fill_Zero:
  "diagonal_fill 1 (MatrixXs_Zero n m) = MatrixXs_Identity n m"
proof (rule matrix_eqI [of n m])
  show "is_matrix n m (diagonal_fill 1 (MatrixXs_Zero n m))"
    by (simp add: is_matrix_diagonal_fill)
  show "is_matrix n m (MatrixXs_Identity n m)" by simp
next
  fix i j assume ij: "i < n" "j < m"
  have z: "is_matrix n m (MatrixXs_Zero n m :: 'a MatrixXs)" by simp
  from ij z have "diagonal_fill 1 (MatrixXs_Zero n m :: 'a MatrixXs) ! i ! j =
      (if i = j then 1 else MatrixXs_Zero n m ! i ! j)"
    by (intro nth_nth_diagonal_fill) (simp_all add: is_matrix_alt)
  then show "diagonal_fill 1 (MatrixXs_Zero n m :: 'a MatrixXs) ! i ! j =
      MatrixXs_Identity n m ! i ! j"
    using ij by (simp add: nth_Identity nth_Zero)
qed

lemma calc_ok:
  assumes "valid_model this" and "length u = nu this"
  shows "calc this data x u = (None, this, data\<lparr>r := map2 (-) u (uref this)\<rparr>)"
  using assms by (simp add: calc_def valid_model_def vec_minus_def)

lemma calcDiff_state: "snd (calcDiff ndebug isApprox this data x u) = (this, data)"
  by (simp add: calcDiff_def)

lemma calcDiff_foldl_state:
  "snd (foldl (\<lambda>(e, m, d) (x, u). calcDiff ndebug isApprox m d x u) (e0, this, data) calls)
     = (this, data)"
proof (induction calls rule: rev_induct)
  case Nil
  show ?case by simp
next
  case (snoc c calls)
  obtain e where "foldl (\<lambda>(e, m, d) (x, u). calcDiff ndebug isApprox m d x u)
      (e0, this, data) calls = (e, this, data)"
    using snoc.IH by (metis prod.collapse)
  then show ?case
    by (cases c) (simp add: calcDiff_state)
qed

lemma createData_Ru:
  "Ru (createData base_ctor this c) = diagonal_fill 1 (Ru (base_ctor this c))"
  by (simp add: createData_def Let_def)

section \<open>The residual\<close>

text \<open>
  C1. For a model whose reference vector has \<open>nu\<close> coefficients and a control vector \<open>u\<close>
  with \<open>nu\<close> coefficients, \<open>calc(data, x, u)\<close> returns normally and leaves in \<open>data.r\<close> a
  vector of \<open>nu\<close> coefficients, the \<open>i\<close>-th being \<open>u[i] - u_ref[i]\<close>. (No lower bound on
  \<open>nu\<close> is needed.)
\<close>

theorem calc_residual:
  assumes "valid_model this" and "length u = nu this"
  shows "case calc this data x u of (e, this', data') \<Rightarrow>
           e = None \<and> length (r data') = nu this \<and>
           (\<forall>i<nu this. r data' ! i = u ! i - uref this ! i)"
  using assms by (simp add: calc_ok valid_model_def)

theorem calc_residual_witness:
  "valid_model model_123 \<and> length [0, 0, 0 :: int] = nu model_123 \<and>
   (case calc model_123 data_stale [] [0, 0, 0] of (e, this', data') \<Rightarrow>
      e = None \<and> length (r data') = nu model_123 \<and>
      (\<forall>i<nu model_123. r data' ! i = [0, 0, 0] ! i - uref model_123 ! i))"
proof -
  have h1: "valid_model model_123" by (simp add: valid_model_def)
  have h2: "length [0, 0, 0 :: int] = nu model_123" by simp
  from calc_residual [OF h1 h2, where data = data_stale and x = "[]"] h1 h2
  show ?thesis by blast
qed

lemma calc_scenario:
  "r (snd (snd (calc model_123 data_stale [] [1, 2, 3]))) = [0, 0, 0]"
  "r (snd (snd (calc model_123 data_stale [] [0, 0, 0]))) = [-1, -2, -3]"
  by (simp_all add: calc_def vec_minus_def)

section \<open>Construction\<close>

lemma ctor_uref_zero: "ResidualModelControl_uref st [] = Inl InvalidArgument"
  by (simp add: ResidualModelControl_uref_eq)

lemma ctor_nu_zero: "ResidualModelControl_nu st 0 = Inl InvalidArgument"
  by (simp add: ResidualModelControl_nu_eq)

text \<open>
  C2. A construction whose control dimension comes out as zero should fail with an
  invalid-argument exception. The constructors taking a reference vector or a dimension
  do (\<open>ctor_uref_zero\<close>, \<open>ctor_nu_zero\<close>); the constructor taking only the state does
  not: on a state with \<open>nv = 0\<close> it returns a model with \<open>nu = 0\<close>.
\<close>

theorem ctor_state_zero_accepted:
  "ResidualModelControl_state \<lparr>nv = 0\<rparr> =
     Inr (\<lparr>state = \<lparr>nv = 0\<rparr>, nr = 0, nu = 0, q_dependent = False,
           v_dependent = False, u_dependent = True, uref = []\<rparr> :: int ResidualModelControl)"
  by (simp add: ResidualModelControl_state_eq)

text \<open>
  C8. Construction with an explicit dimension \<open>nu > 0\<close> succeeds, and the reference of
  the model reads back as \<open>nu\<close> zeros.
\<close>

theorem ctor_nu_reference_zero:
  assumes "0 < n"
  shows "case ResidualModelControl_nu st n of
           Inl e \<Rightarrow> False
         | Inr this \<Rightarrow> nu this = n \<and> length (get_reference this) = n \<and>
                       get_reference this = replicate n 0"
  using assms by (simp add: ResidualModelControl_nu_eq get_reference_def)

theorem ctor_nu_reference_zero_witness:
  "(0::nat) < 4 \<and>
   (case ResidualModelControl_nu \<lparr>nv = 2\<rparr> 4 of
      Inl e \<Rightarrow> False
    | Inr this \<Rightarrow> nu this = 4 \<and> length (get_reference this) = 4 \<and>
                  get_reference this = replicate 4 (0::int))"
proof -
  have h: "(0::nat) < 4" by simp
  from ctor_nu_reference_zero [OF h, where st = "\<lparr>nv = 2\<rparr>" and 'a = int] h
  show ?thesis by blast
qed

lemma ctor_nu_scenario:
  "map_sum id get_reference (ResidualModelControl_nu \<lparr>nv = 2\<rparr> 4) = Inr [0, 0, 0, 0 :: int]"
  by (simp add: ResidualModelControl_nu_eq get_reference_def numeral_eq_Suc)

section \<open>Errors and frame of \<open>calc\<close>\<close>

text \<open>
  C4. For a control vector whose length differs from \<open>nu\<close>, \<open>calc(data, x, u)\<close> throws
  the invalid-argument exception, and \<open>data.r\<close> (indeed the whole data object, and the
  model) is as before the call.
\<close>

theorem calc_wrong_dimension:
  assumes "length u \<noteq> nu this"
  shows "case calc this data x u of (e, this', data') \<Rightarrow>
           e = Some InvalidArgument \<and> r data' = r data \<and> data' = data \<and> this' = this"
  using assms by (simp add: calc_def)

theorem calc_wrong_dimension_witness:
  "length [0, 0 :: int] \<noteq> nu model_123 \<and>
   (case calc model_123 data_stale [] [0, 0] of (e, this', data') \<Rightarrow>
      e = Some InvalidArgument \<and> r data' = r data_stale \<and> data' = data_stale \<and>
      this' = model_123)"
proof -
  have h: "length [0, 0 :: int] \<noteq> nu model_123" by simp
  from calc_wrong_dimension [OF h, where data = data_stale and x = "[]"] h
  show ?thesis by blast
qed

text \<open>
  C5. On a data object whose residual has \<open>nu\<close> coefficients, as every data object of the
  model has, the overload \<open>calc(data, x)\<close> returns normally and leaves in \<open>data.r\<close> the
  vector of \<open>nu\<close> zeros, whatever the coefficients were before.
\<close>

theorem calc_x_zero:
  assumes "length (r data) = nu this"
  shows "case calc_x this data x of (e, this', data') \<Rightarrow>
           e = None \<and> r data' = replicate (nu this) 0"
  using assms by (simp add: calc_x_def setZero_def)

theorem calc_x_zero_witness:
  "length (r data_stale) = nu model_123 \<and>
   (case calc_x model_123 data_stale [] of (e, this', data') \<Rightarrow>
      e = None \<and> r data' = replicate (nu model_123) 0)"
proof -
  have h: "length (r data_stale) = nu model_123" by simp
  from calc_x_zero [OF h, where x = "[]"] h
  show ?thesis by blast
qed

lemma calc_x_never_throws: "fst (calc_x this data x) = None"
  by (simp add: calc_x_def)

text \<open>
  C7. The result of \<open>calc(data, x, u)\<close> does not depend on the state argument: with two
  states the call ends the same way and leaves the same data object (so the same \<open>r\<close>)
  and the same model, for every control vector, of the right length or not.
\<close>

theorem calc_state_independent: "calc this data x1 u = calc this data x2 u"
  by (simp add: calc_def)

theorem calc_state_independent_witness:
  "calc model_123 data_stale [1] [4, 5, 6] = calc model_123 data_stale [2, 3] [4, 5, 6]"
  by (rule calc_state_independent)

lemma length_r_calc_x: "length (r (snd (snd (calc_x this data x)))) = length (r data)"
  by (simp add: calc_x_def setZero_def)

lemma r_createData: "r (createData base_ctor this c) = r (base_ctor this c)"
  by (simp add: createData_def Let_def)

lemma length_r_createData:
  "valid_model this \<Longrightarrow> length (r (createData ResidualDataAbstract_ctor this c)) = nu this"
  by (simp add: r_createData ResidualDataAbstract_ctor_def VectorXs_Zero_def valid_model_def)

text \<open>
  C9. A \<open>calc(data, x, u)\<close> with \<open>u\<close> of length \<open>nu\<close> returns normally, leaves the model
  as it was, and leaves the data object as it was but for the field \<open>r\<close>: \<open>Ru\<close> and the
  remaining part of the object are unchanged.
\<close>

theorem calc_frame:
  assumes "valid_model this" and "length u = nu this"
  shows "case calc this data x u of (e, this', data') \<Rightarrow>
           e = None \<and> this' = this \<and> Ru data' = Ru data \<and>
           ResidualDataAbstract.more data' = ResidualDataAbstract.more data \<and>
           data' = data\<lparr>r := r data'\<rparr>"
  using assms by (simp add: calc_ok)

theorem calc_frame_witness:
  "valid_model model_123 \<and> length [4, 5, 6 :: int] = nu model_123 \<and>
   (case calc model_123 data_stale [] [4, 5, 6] of (e, this', data') \<Rightarrow>
      e = None \<and> this' = model_123 \<and> Ru data' = Ru data_stale \<and>
      ResidualDataAbstract.more data' = ResidualDataAbstract.more data_stale \<and>
      data' = data_stale\<lparr>r := r data'\<rparr>)"
proof -
  have h1: "valid_model model_123" by (simp add: valid_model_def)
  have h2: "length [4, 5, 6 :: int] = nu model_123" by simp
  from calc_frame [OF h1 h2, where data = data_stale and x = "[]"] h1 h2
  show ?thesis by blast
qed

section \<open>The reference\<close>

text \<open>
  C6. \<open>set_reference\<close> with a vector of \<open>nu\<close> coefficients returns normally and the vector
  is the reference from then on: every later \<open>calc(data, x, u)\<close> on the model, with \<open>u\<close> of
  length \<open>nu\<close>, leaves \<open>u\<close> minus that vector in \<open>data.r\<close>. With a vector of any other
  length it throws the invalid-argument exception and the model, its reference included,
  is as before.
\<close>

theorem set_reference_contract:
  "(length reference = nu this \<longrightarrow>
      (case set_reference this reference of (e, this') \<Rightarrow>
         e = None \<and> get_reference this' = reference \<and> nu this' = nu this \<and>
         (\<forall>data x u. length u = nu this \<longrightarrow>
            (case calc this' data x u of (e', this'', data') \<Rightarrow>
               e' = None \<and> this'' = this' \<and> length (r data') = nu this \<and>
               (\<forall>i<nu this. r data' ! i = u ! i - reference ! i))))) \<and>
   (length reference \<noteq> nu this \<longrightarrow>
      (case set_reference this reference of (e, this') \<Rightarrow>
         e = Some InvalidArgument \<and> get_reference this' = get_reference this \<and> this' = this))"
  by (simp add: set_reference_def get_reference_def calc_def vec_minus_def)

theorem set_reference_contract_witness:
  "length [10, 20, 30 :: int] = nu model_123 \<and>
   set_reference model_123 [10, 20, 30] = (None, model_123\<lparr>uref := [10, 20, 30]\<rparr>) \<and>
   length [11, 22, 33 :: int] = nu model_123 \<and>
   (case calc (model_123\<lparr>uref := [10, 20, 30]\<rparr>) data_stale [] [11, 22, 33] of
      (e', this'', data') \<Rightarrow>
        e' = None \<and> this'' = model_123\<lparr>uref := [10, 20, 30]\<rparr> \<and>
        length (r data') = nu model_123 \<and>
        (\<forall>i<nu model_123. r data' ! i = [11, 22, 33] ! i - [10, 20, 30] ! i)) \<and>
   length [1 :: int] \<noteq> nu model_123 \<and>
   (case set_reference model_123 [1] of (e, this') \<Rightarrow>
      e = Some InvalidArgument \<and> get_reference this' = get_reference model_123 \<and>
      this' = model_123)"
proof -
  have h1: "length [10, 20, 30 :: int] = nu model_123" by simp
  have h2: "length [1 :: int] \<noteq> nu model_123" by simp
  have h3: "length [11, 22, 33 :: int] = nu model_123" by simp
  have s1: "set_reference model_123 [10, 20, 30] = (None, model_123\<lparr>uref := [10, 20, 30]\<rparr>)"
    by (simp add: set_reference_def)
  have ok: "case set_reference model_123 [10, 20, 30] of (e, this') \<Rightarrow>
         e = None \<and> get_reference this' = [10, 20, 30] \<and> nu this' = nu model_123 \<and>
         (\<forall>(data :: int ResidualDataAbstract) x u. length u = nu model_123 \<longrightarrow>
            (case calc this' data x u of (e', this'', data') \<Rightarrow>
               e' = None \<and> this'' = this' \<and> length (r data') = nu model_123 \<and>
               (\<forall>i<nu model_123. r data' ! i = u ! i - [10, 20, 30] ! i)))"
    by (rule set_reference_contract [where this = model_123 and reference = "[10, 20, 30]",
          THEN conjunct1, THEN mp, OF h1])
  have bad: "case set_reference model_123 [1] of (e, this') \<Rightarrow>
         e = Some InvalidArgument \<and> get_reference this' = get_reference model_123 \<and>
         this' = model_123"
    by (rule set_reference_contract [where this = model_123 and reference = "[1]",
          THEN conjunct2, THEN mp, OF h2])
  note later = ok [unfolded s1 prod.case, THEN conjunct2, THEN conjunct2, THEN conjunct2]
  have c: "case calc (model_123\<lparr>uref := [10, 20, 30]\<rparr>) data_stale [] [11, 22, 33] of
      (e', this'', data') \<Rightarrow>
        e' = None \<and> this'' = model_123\<lparr>uref := [10, 20, 30]\<rparr> \<and>
        length (r data') = nu model_123 \<and>
        (\<forall>i<nu model_123. r data' ! i = [11, 22, 33] ! i - [10, 20, 30] ! i)"
    by (rule later [THEN spec, THEN spec, THEN spec, THEN mp, OF h3])
  from h1 s1 h3 c h2 bad show ?thesis by blast
qed

lemma set_reference_scenario:
  "r (snd (snd (calc (snd (set_reference model_123 [10, 20, 30])) data_stale [] [11, 22, 33])))
     = [1, 2, 3]"
  by (simp add: set_reference_def calc_def vec_minus_def)

section \<open>The Jacobian\<close>

text \<open>
  C10. \<open>createData\<close> changes the object the base data constructor produced only in the
  diagonal coefficients of \<open>Ru\<close>, which become \<open>1\<close>: \<open>r\<close>, the rest of the object, the
  shape of \<open>Ru\<close> and every off-diagonal coefficient of \<open>Ru\<close> are those of the base
  construction. So, for a base construction giving a \<open>nu \<times> nu\<close> matrix, \<open>Ru\<close> is the
  identity exactly when the base construction left zero in every coefficient that
  \<open>createData\<close> does not write.
\<close>

theorem createData_diagonal_only:
  fixes this :: "('a::{zero,one}) ResidualModelControl"
  shows "let base = base_ctor this c; data = createData base_ctor this c in
     r data = r base \<and>
     ResidualDataAbstract.more data = ResidualDataAbstract.more base \<and>
     length (Ru data) = length (Ru base) \<and>
     (\<forall>i<length (Ru base). length (Ru data ! i) = length (Ru base ! i) \<and>
        (\<forall>j<length (Ru base ! i). Ru data ! i ! j = (if i = j then 1 else Ru base ! i ! j))) \<and>
     (is_matrix (nu this) (nu this) (Ru base) \<longrightarrow>
        (Ru data = MatrixXs_Identity (nu this) (nu this) \<longleftrightarrow>
           (\<forall>i<nu this. \<forall>j<nu this. i \<noteq> j \<longrightarrow> Ru base ! i ! j = 0)))"
proof -
  define B where "B = Ru (base_ctor this c)"
  define n where "n = nu this"
  have shape: "\<forall>i<length B. length (diagonal_fill 1 B ! i) = length (B ! i) \<and>
        (\<forall>j<length (B ! i). diagonal_fill 1 B ! i ! j = (if i = j then 1 else B ! i ! j))"
    by (simp add: nth_nth_diagonal_fill)
  have iff: "diagonal_fill 1 B = MatrixXs_Identity n n \<longleftrightarrow>
               (\<forall>i<n. \<forall>j<n. i \<noteq> j \<longrightarrow> B ! i ! j = 0)" if m: "is_matrix n n B"
  proof
    assume eq: "diagonal_fill 1 B = MatrixXs_Identity n n"
    show "\<forall>i<n. \<forall>j<n. i \<noteq> j \<longrightarrow> B ! i ! j = 0"
    proof (intro allI impI)
      fix i j assume ij: "i < n" "j < n" "i \<noteq> j"
      with m have "diagonal_fill 1 B ! i ! j = B ! i ! j"
        by (simp add: nth_nth_diagonal_fill is_matrix_alt)
      moreover have "MatrixXs_Identity n n ! i ! j = (0::'a)"
        using ij by (simp add: nth_Identity)
      ultimately show "B ! i ! j = 0" using eq by simp
    qed
  next
    assume z: "\<forall>i<n. \<forall>j<n. i \<noteq> j \<longrightarrow> B ! i ! j = 0"
    show "diagonal_fill 1 B = MatrixXs_Identity n n"
    proof (rule matrix_eqI [of n n])
      show "is_matrix n n (diagonal_fill 1 B)" using m by (rule is_matrix_diagonal_fill)
      show "is_matrix n n (MatrixXs_Identity n n :: 'a MatrixXs)" by simp
    next
      fix i j assume ij: "i < n" "j < n"
      with m have "diagonal_fill 1 B ! i ! j = (if i = j then 1 else B ! i ! j)"
        by (simp add: nth_nth_diagonal_fill is_matrix_alt)
      then show "diagonal_fill 1 B ! i ! j = MatrixXs_Identity n n ! i ! j"
        using ij z by (simp add: nth_Identity)
    qed
  qed
  show ?thesis
    using shape iff by (simp add: Let_def createData_def B_def n_def)
qed

theorem createData_diagonal_only_witness:
  "is_matrix (nu model_123) (nu model_123) (Ru (ctor_garbage model_123 ())) \<and>
   Ru (createData ctor_garbage model_123 ()) = [[1, 7, 0], [8, 1, 0], [0, 0, 1]] \<and>
   r (createData ctor_garbage model_123 ()) = [4, 4, 4] \<and>
   Ru (createData ctor_garbage model_123 ()) \<noteq> MatrixXs_Identity 3 3 \<and>
   Ru (ctor_garbage model_123 ()) ! 0 ! 1 \<noteq> 0"
proof -
  have h: "is_matrix (nu model_123) (nu model_123) (Ru (ctor_garbage model_123 ()))"
    by (simp add: is_matrix_def)
  have nz: "Ru (ctor_garbage model_123 ()) ! 0 ! 1 \<noteq> 0" by simp
  have "\<not> (\<forall>i<nu model_123. \<forall>j<nu model_123. i \<noteq> j \<longrightarrow> Ru (ctor_garbage model_123 ()) ! i ! j = 0)"
  proof
    assume "\<forall>i<nu model_123. \<forall>j<nu model_123. i \<noteq> j \<longrightarrow> Ru (ctor_garbage model_123 ()) ! i ! j = 0"
    then have "(0::nat) < nu model_123 \<longrightarrow> (\<forall>j<nu model_123. 0 \<noteq> j \<longrightarrow> Ru (ctor_garbage model_123 ()) ! 0 ! j = 0)"
      by blast
    then have "\<forall>j<nu model_123. 0 \<noteq> j \<longrightarrow> Ru (ctor_garbage model_123 ()) ! 0 ! j = 0" by simp
    then have "(1::nat) < nu model_123 \<longrightarrow> (0::nat) \<noteq> 1 \<longrightarrow> Ru (ctor_garbage model_123 ()) ! 0 ! 1 = 0"
      by blast
    then show False by simp
  qed
  with createData_diagonal_only [where base_ctor = ctor_garbage and this = model_123 and c = "()"] h
  have ne: "Ru (createData ctor_garbage model_123 ()) \<noteq> MatrixXs_Identity 3 3"
    by (simp add: Let_def)
  have v: "Ru (createData ctor_garbage model_123 ()) = [[1, 7, 0], [8, 1, 0], [0, 0, 1]]"
    by (simp add: createData_def diagonal_fill_def upt_rec numeral_eq_Suc)
  have w: "r (createData ctor_garbage model_123 ()) = [4, 4, 4]"
    by (simp add: createData_def)
  from h v w ne nz show ?thesis by blast
qed

text \<open>
  C3. For a model with \<open>nr = nu\<close>, and a base data constructor that gives \<open>Ru\<close> as the
  \<open>nr \<times> nu\<close> zero matrix, the \<open>Ru\<close> of the object \<open>createData\<close> returns is the
  \<open>nu \<times> nu\<close> identity, and it still is after any sequence of \<open>calcDiff\<close> calls on that
  object, whatever their arguments, in a build with or without \<open>NDEBUG\<close>.
\<close>

theorem createData_Ru_identity:
  assumes "valid_model this"
    and "Ru (base_ctor this c) = MatrixXs_Zero (nr this) (nu this)"
  shows "Ru (createData base_ctor this c) = MatrixXs_Identity (nu this) (nu this) \<and>
         Ru (snd (snd (foldl (\<lambda>(e, m, d) (x, u). calcDiff ndebug isApprox m d x u)
                         (None, this, createData base_ctor this c) calls)))
           = MatrixXs_Identity (nu this) (nu this)"
proof -
  have "nr this = nu this" using assms(1) by (simp add: valid_model_def)
  then have "Ru (createData base_ctor this c) = MatrixXs_Identity (nu this) (nu this)"
    using assms(2) by (simp add: createData_Ru diagonal_fill_Zero)
  then show ?thesis by (simp add: calcDiff_foldl_state)
qed

theorem createData_Ru_identity_witness:
  "valid_model model_123 \<and>
   Ru (ResidualDataAbstract_ctor model_123 ()) = MatrixXs_Zero (nr model_123) (nu model_123) \<and>
   Ru (createData ResidualDataAbstract_ctor model_123 ()) = MatrixXs_Identity (nu model_123) (nu model_123) \<and>
   Ru (snd (snd (foldl (\<lambda>(e, m, d) (x, u). calcDiff False (=) m d x u)
                   (None, model_123, createData ResidualDataAbstract_ctor model_123 ())
                   [([], [0, 0, 0]), ([], [4, 5, 6])])))
     = MatrixXs_Identity (nu model_123) (nu model_123)"
proof -
  have h1: "valid_model model_123" by (simp add: valid_model_def)
  have h2: "Ru (ResidualDataAbstract_ctor model_123 ()) = MatrixXs_Zero (nr model_123) (nu model_123)"
    by (simp add: ResidualDataAbstract_ctor_def)
  from createData_Ru_identity [where base_ctor = ResidualDataAbstract_ctor
      and this = model_123 and c = "()" and ndebug = False and isApprox = "(=)"
      and calls = "[([], [0, 0, 0]), ([], [4, 5, 6])]", OF h1 h2] h1 h2
  show ?thesis by blast
qed

lemma createData_scenario:
  "Ru (createData ResidualDataAbstract_ctor model_123 ()) = [[1, 0, 0], [0, 1, 0], [0, 0, 1]]"
  by (simp add: createData_def ResidualDataAbstract_ctor_def diagonal_fill_def MatrixXs_Zero_def
      upt_rec numeral_eq_Suc)

lemma calcDiff_accepts_identity:
  assumes "Ru data = MatrixXs_Identity (nu this) (nu this)"
    and "isApprox (MatrixXs_Identity (nu this) (nu this)) (MatrixXs_Identity (nu this) (nu this))"
  shows "calcDiff ndebug isApprox this data x u = (None, this, data)"
  using assms by (simp add: calcDiff_def)

end
